theory Spec2Isabelle
  imports Complex_Main
begin

section \<open>Shared hand tracking module: data model\<close>

text \<open>
  The module under study is the shared hand tracking script (\<^verbatim>\<open>handTracking.js\<close>).
  JavaScript numbers are modelled as real numbers: every statement below is about exact
  arithmetic. A landmark is an object with numeric fields \<^verbatim>\<open>x\<close>, \<^verbatim>\<open>y\<close> and an optional
  depth \<^verbatim>\<open>z\<close>; the source reads the depth as \<^verbatim>\<open>(p.z || 0)\<close>.
\<close>

record landmark =
  px :: real
  py :: real
  pz :: "real option"

text \<open>\<^verbatim>\<open>z || 0\<close>: an absent depth reads as 0 (and the depth 0 reads as 0 as well).\<close>

definition orZero :: "real option \<Rightarrow> real" where
  "orZero z = (case z of None \<Rightarrow> 0 | Some v \<Rightarrow> (if v = 0 then 0 else v))"

text \<open>
  Failures are values. \<open>TypeError\<close> is what JavaScript raises when a field is read from
  \<^verbatim>\<open>undefined\<close> (a landmark index beyond the end of the array). JavaScript's division
  never raises: a zero divisor gives \<^verbatim>\<open>Infinity\<close> or \<^verbatim>\<open>NaN\<close>, which are not real numbers;
  the model marks that outcome as \<open>NonFinite\<close> so that it cannot pass unnoticed as the
  real number that HOL's total division would return.
\<close>

datatype error = TypeError | NonFinite

text \<open>\<^verbatim>\<open>landmarks[i]\<close>: \<^verbatim>\<open>undefined\<close> beyond the end of the array.\<close>

definition landmarkAt :: "landmark list \<Rightarrow> nat \<Rightarrow> landmark option" where
  "landmarkAt landmarks i = (if i < length landmarks then Some (landmarks ! i) else None)"

definition jsDivide :: "real \<Rightarrow> real \<Rightarrow> error + real" where
  "jsDivide a b = (if b = 0 then Inl NonFinite else Inr (a / b))"

section \<open>Openness\<close>

text \<open>
  \<^verbatim>\<open>Math.sqrt(dx * dx + dy * dy + dz * dz)\<close> with
  \<^verbatim>\<open>dx = a.x - b.x\<close>, \<^verbatim>\<open>dy = a.y - b.y\<close>, \<^verbatim>\<open>dz = (a.z || 0) - (b.z || 0)\<close>:
  the expression used for the hand size (a = middle MCP, b = wrist) and for each
  finger (a = tip, b = base).
\<close>

definition segmentLength :: "landmark \<Rightarrow> landmark \<Rightarrow> real" where
  "segmentLength a b =
     (let dx = px a - px b;
          dy = py a - py b;
          dz = orZero (pz a) - orZero (pz b)
      in sqrt (dx * dx + dy * dy + dz * dz))"

text \<open>
  The array \<^verbatim>\<open>fingers\<close> of \<^verbatim>\<open>{tip, base}\<close> objects. Building it does not raise: a missing
  landmark is stored as \<^verbatim>\<open>undefined\<close> and only read inside the loop.
\<close>

definition fingerIndices :: "(nat \<times> nat) list" where
  "fingerIndices = [(4, 2), (8, 5), (12, 9), (16, 13), (20, 17)]"

definition fingers :: "landmark list \<Rightarrow> (landmark option \<times> landmark option) list" where
  "fingers landmarks = map (\<lambda>(tip, base). (landmarkAt landmarks tip, landmarkAt landmarks base)) fingerIndices"

text \<open>
  The loop \<^verbatim>\<open>for (const finger of fingers) { ...; totalRatio += fingerLength / handSize; }\<close>
  with the running total as accumulator.
\<close>

fun sumRatios :: "real \<Rightarrow> (landmark option \<times> landmark option) list \<Rightarrow> real \<Rightarrow> error + real" where
  "sumRatios handSize [] totalRatio = Inr totalRatio"
| "sumRatios handSize ((tip, base) # rest) totalRatio =
     (case tip of
        None \<Rightarrow> Inl TypeError
      | Some t \<Rightarrow>
          (case base of
             None \<Rightarrow> Inl TypeError
           | Some b \<Rightarrow>
               (case jsDivide (segmentLength t b) handSize of
                  Inl e \<Rightarrow> Inl e
                | Inr ratio \<Rightarrow> sumRatios handSize rest (totalRatio + ratio))))"

definition minRatio :: real where
  "minRatio = 45 / 100"

definition maxRatio :: real where
  "maxRatio = 85 / 100"

definition calculateHandOpenness :: "landmark list \<Rightarrow> error + real" where
  "calculateHandOpenness landmarks =
     (case landmarkAt landmarks 9 of
        None \<Rightarrow> Inl TypeError
      | Some middleMCP \<Rightarrow>
          (case landmarkAt landmarks 0 of
             None \<Rightarrow> Inl TypeError
           | Some wrist \<Rightarrow>
               (let handSize = segmentLength middleMCP wrist in
                if handSize < 1 / 1000 then Inr 0
                else
                  (case sumRatios handSize (fingers landmarks) 0 of
                     Inl e \<Rightarrow> Inl e
                   | Inr totalRatio \<Rightarrow>
                       (let avgRatio = totalRatio / real (length (fingers landmarks));
                            normalized = (avgRatio - minRatio) / (maxRatio - minRatio)
                        in Inr (max 0 (min 1 normalized)))))))"

section \<open>Orientation\<close>

text \<open>
  Modelled from the spec: the vector operations of the 3-D math library (three.js is
  loaded from outside the repository). A \<^verbatim>\<open>THREE.Vector3\<close> is a triple of numbers;
  \<open>subVectors\<close> is the componentwise difference, \<open>crossVectors\<close> the cross product and
  \<open>normalize\<close> the division by the Euclidean length, which leaves the zero vector as
  it is.
\<close>

datatype Vector3 = Vector3 (vx: real) (vy: real) (vz: real)

definition subVectors :: "Vector3 \<Rightarrow> Vector3 \<Rightarrow> Vector3" where
  "subVectors a b = Vector3 (vx a - vx b) (vy a - vy b) (vz a - vz b)"

definition crossVectors :: "Vector3 \<Rightarrow> Vector3 \<Rightarrow> Vector3" where
  "crossVectors a b =
     Vector3 (vy a * vz b - vz a * vy b) (vz a * vx b - vx a * vz b) (vx a * vy b - vy a * vx b)"

definition dot :: "Vector3 \<Rightarrow> Vector3 \<Rightarrow> real" where
  "dot a b = vx a * vx b + vy a * vy b + vz a * vz b"

definition vlength :: "Vector3 \<Rightarrow> real" where
  "vlength a = sqrt (dot a a)"

definition normalize :: "Vector3 \<Rightarrow> Vector3" where
  "normalize a =
     (let l = (if vlength a = 0 then 1 else vlength a)
      in Vector3 (vx a / l) (vy a / l) (vz a / l))"

text \<open>
  \<^verbatim>\<open>new THREE.Vector3(p.x - 0.5, -(p.y - 0.5), p.z || 0)\<close>: image coordinates are
  re-centred and the vertical axis is inverted.
\<close>

definition toVector3 :: "landmark \<Rightarrow> Vector3" where
  "toVector3 p = Vector3 (px p - 1 / 2) (- (py p - 1 / 2)) (orZero (pz p))"

text \<open>
  The basis (right, up, forward) that \<^verbatim>\<open>calculateHandRotation\<close> hands to
  \<^verbatim>\<open>makeBasis\<close>. The four landmarks are read in the order 0, 5, 17, 9.
\<close>

definition handBasis :: "landmark list \<Rightarrow> error + (Vector3 \<times> Vector3 \<times> Vector3)" where
  "handBasis landmarks =
     (case landmarkAt landmarks 0 of
        None \<Rightarrow> Inl TypeError
      | Some l0 \<Rightarrow>
     (case landmarkAt landmarks 5 of
        None \<Rightarrow> Inl TypeError
      | Some l5 \<Rightarrow>
     (case landmarkAt landmarks 17 of
        None \<Rightarrow> Inl TypeError
      | Some l17 \<Rightarrow>
     (case landmarkAt landmarks 9 of
        None \<Rightarrow> Inl TypeError
      | Some l9 \<Rightarrow>
          (let wrist = toVector3 l0;
               indexMCP = toVector3 l5;
               pinkyMCP = toVector3 l17;
               middleMCP = toVector3 l9;
               handUp = normalize (subVectors middleMCP wrist);
               handRight0 = normalize (subVectors indexMCP pinkyMCP);
               handForward = normalize (crossVectors handRight0 handUp);
               handRight = normalize (crossVectors handUp handForward)
           in Inr (handRight, handUp, handForward))))))"

text \<open>
  The quaternion side of the library is a parameter: \<open>'q\<close> is the type of quaternion
  values, \<open>threeDefined\<close> is the test \<^verbatim>\<open>typeof THREE !== 'undefined'\<close>,
  \<open>newQuaternion\<close> is \<^verbatim>\<open>new THREE.Quaternion()\<close>, \<open>quaternionOfBasis\<close> is
  \<^verbatim>\<open>makeBasis\<close> followed by \<^verbatim>\<open>setFromRotationMatrix\<close>, and \<open>slerp q t f\<close> is the value
  that \<^verbatim>\<open>q.slerp(t, f)\<close> leaves in \<^verbatim>\<open>q\<close>.
\<close>

record 'q library =
  threeDefined :: bool
  newQuaternion :: 'q
  quaternionOfBasis :: "Vector3 \<Rightarrow> Vector3 \<Rightarrow> Vector3 \<Rightarrow> 'q"
  slerp :: "'q \<Rightarrow> 'q \<Rightarrow> real \<Rightarrow> 'q"

definition calculateHandRotation :: "'q library \<Rightarrow> landmark list \<Rightarrow> error + 'q option" where
  "calculateHandRotation lib landmarks =
     (if \<not> threeDefined lib then Inr None
      else
        (case handBasis landmarks of
           Inl e \<Rightarrow> Inl e
         | Inr (handRight, handUp, handForward) \<Rightarrow>
             Inr (Some (quaternionOfBasis lib handRight handUp handForward))))"

section \<open>Preview drawing\<close>

text \<open>
  The canvas is outside the model; what matters of \<^verbatim>\<open>drawHandLandmarks\<close> is that it
  reads \<^verbatim>\<open>landmarks[start].x\<close> and \<^verbatim>\<open>landmarks[end].x\<close> for every connection, in order,
  and so raises on an array that lacks one of these indices.
\<close>

definition connections :: "(nat \<times> nat) list" where
  "connections =
     [(0, 1), (1, 2), (2, 3), (3, 4),
      (0, 5), (5, 6), (6, 7), (7, 8),
      (0, 9), (9, 10), (10, 11), (11, 12),
      (0, 13), (13, 14), (14, 15), (15, 16),
      (0, 17), (17, 18), (18, 19), (19, 20),
      (5, 9), (9, 13), (13, 17)]"

fun drawConnections :: "landmark list \<Rightarrow> (nat \<times> nat) list \<Rightarrow> error option" where
  "drawConnections landmarks [] = None"
| "drawConnections landmarks ((start, end) # rest) =
     (case landmarkAt landmarks start of
        None \<Rightarrow> Some TypeError
      | Some startPoint \<Rightarrow>
          (case landmarkAt landmarks end of
             None \<Rightarrow> Some TypeError
           | Some endPoint \<Rightarrow> drawConnections landmarks rest))"

definition drawHandLandmarks :: "landmark list \<Rightarrow> error option" where
  "drawHandLandmarks landmarks = drawConnections landmarks connections"

section \<open>Module state\<close>

text \<open>
  A callback is an opaque function of the consumer; the model identifies it by a number and
  records each invocation, with its argument, as a notification.
\<close>

type_synonym callback = nat

datatype 'q snapshot =
  Snapshot (openness: real) (rotation: "'q option") (snapshotLandmarks: "landmark list")

datatype 'q notification = HandUpdate callback "'q snapshot" | HandLost callback

text \<open>
  What the detector passes to \<^verbatim>\<open>onHandResults\<close>: the list of landmark sets and the list
  of handedness labels, either of which may be absent.
\<close>

record results =
  multiHandLandmarks :: "landmark list list option"
  multiHandedness :: "string list option"

record 'q state =
  handOpenness :: real
  targetHandOpenness :: real
  smoothedOpenness :: real
  isHandDetected :: bool
  handedness :: string
  handRotation :: "'q option"
  targetHandRotation :: "'q option"
  smoothedHandRotation :: "'q option"
  landmarks :: "landmark list option"
  showCameraFeed :: bool
  onHandUpdate :: "callback option"
  onHandLost :: "callback option"

definition SMOOTHING :: real where
  "SMOOTHING = 12 / 100"

definition initialState :: "'q state" where
  "initialState =
     \<lparr>handOpenness = 0, targetHandOpenness = 0, smoothedOpenness = 0,
      isHandDetected = False, handedness = ''Right'',
      handRotation = None, targetHandRotation = None, smoothedHandRotation = None,
      landmarks = None, showCameraFeed = False,
      onHandUpdate = None, onHandLost = None\<rparr>"

definition initQuaternions :: "'q library \<Rightarrow> 'q state \<Rightarrow> 'q state" where
  "initQuaternions lib s =
     (if threeDefined lib
      then s\<lparr>handRotation := Some (newQuaternion lib),
             targetHandRotation := Some (newQuaternion lib),
             smoothedHandRotation := Some (newQuaternion lib)\<rparr>
      else s)"

text \<open>
  The result of one call of \<^verbatim>\<open>onHandResults\<close> or \<^verbatim>\<open>updateHandTracking\<close>: the exception
  that ended it (if any), the callbacks it invoked, and the module state it left.
\<close>

record 'q outcome =
  raised :: "error option"
  notified :: "'q notification list"
  after :: "'q state"

definition onHandResults :: "'q library \<Rightarrow> results \<Rightarrow> 'q state \<Rightarrow> 'q outcome" where
  "onHandResults lib res s =
     (case multiHandLandmarks res of
        Some (hand # others) \<Rightarrow>
          (let s1 = s\<lparr>isHandDetected := True, landmarks := Some hand\<rparr>;
               s2 = (case multiHandedness res of
                       Some (label # labels) \<Rightarrow> s1\<lparr>handedness := label\<rparr>
                     | _ \<Rightarrow> s1)
           in case drawHandLandmarks hand of
                Some e \<Rightarrow> \<lparr>raised = Some e, notified = [], after = s2\<rparr>
              | None \<Rightarrow>
           (case calculateHandOpenness hand of
                Inl e \<Rightarrow> \<lparr>raised = Some e, notified = [], after = s2\<rparr>
              | Inr value \<Rightarrow>
           (let s3 = s2\<lparr>targetHandOpenness := value\<rparr>
            in case calculateHandRotation lib hand of
                 Inl e \<Rightarrow> \<lparr>raised = Some e, notified = [], after = s3\<rparr>
               | Inr r \<Rightarrow>
                   (let s4 = s3\<lparr>targetHandRotation := r\<rparr>
                    in \<lparr>raised = None,
                        notified =
                          (case onHandUpdate s4 of
                             None \<Rightarrow> []
                           | Some cb \<Rightarrow>
                               [HandUpdate cb (Snapshot (handOpenness s4) (handRotation s4) hand)]),
                        after = s4\<rparr>))))
      | _ \<Rightarrow>
          (let s1 = s\<lparr>isHandDetected := False, landmarks := None, targetHandOpenness := 0\<rparr>
           in \<lparr>raised = None,
               notified = (case onHandLost s1 of None \<Rightarrow> [] | Some cb \<Rightarrow> [HandLost cb]),
               after = s1\<rparr>))"

definition updateHandTracking :: "'q library \<Rightarrow> 'q state \<Rightarrow> 'q outcome" where
  "updateHandTracking lib s =
     (let s1 = s\<lparr>smoothedOpenness :=
                   smoothedOpenness s + (targetHandOpenness s - smoothedOpenness s) * SMOOTHING\<rparr>;
          s2 = s1\<lparr>handOpenness := smoothedOpenness s1\<rparr>
      in if isHandDetected s2
         then (case targetHandRotation s2 of
                 None \<Rightarrow> \<lparr>raised = None, notified = [], after = s2\<rparr>
               | Some target \<Rightarrow>
                   (case smoothedHandRotation s2 of
                      None \<Rightarrow> \<lparr>raised = None, notified = [], after = s2\<rparr>
                    | Some smoothed \<Rightarrow>
                        (let s3 = s2\<lparr>smoothedHandRotation :=
                                       Some (slerp lib smoothed target (SMOOTHING * (15 / 10)))\<rparr>
                         in case handRotation s3 of
                              None \<Rightarrow> \<lparr>raised = Some TypeError, notified = [], after = s3\<rparr>
                            | Some h \<Rightarrow>
                                \<lparr>raised = None, notified = [],
                                 after = s3\<lparr>handRotation := smoothedHandRotation s3\<rparr>\<rparr>)))
         else \<lparr>raised = None, notified = [], after = s2\<rparr>)"

definition setOnHandUpdate :: "callback option \<Rightarrow> 'q state \<Rightarrow> 'q state" where
  "setOnHandUpdate cb s = s\<lparr>onHandUpdate := cb\<rparr>"

definition setOnHandLost :: "callback option \<Rightarrow> 'q state \<Rightarrow> 'q state" where
  "setOnHandLost cb s = s\<lparr>onHandLost := cb\<rparr>"

definition toggleCameraFeed :: "'q state \<Rightarrow> 'q state" where
  "toggleCameraFeed s = s\<lparr>showCameraFeed := \<not> showCameraFeed s\<rparr>"

definition getHandOpenness :: "'q state \<Rightarrow> real" where
  "getHandOpenness s = handOpenness s"

definition getTargetOpenness :: "'q state \<Rightarrow> real" where
  "getTargetOpenness s = targetHandOpenness s"

definition getHandedness :: "'q state \<Rightarrow> string" where
  "getHandedness s = handedness s"

text \<open>
  The module is driven from outside, one call at a time (a single event loop): the
  initialisation of the quaternions, a detector frame, a consumer's update tick, or a
  call of one of the setters. A call that raises leaves the state it had reached.
\<close>

datatype event =
    Init
  | Frame results
  | Tick
  | SetOnHandUpdate "callback option"
  | SetOnHandLost "callback option"
  | ToggleCameraFeed

fun step :: "'q library \<Rightarrow> 'q state \<Rightarrow> event \<Rightarrow> 'q state" where
  "step lib s Init = initQuaternions lib s"
| "step lib s (Frame res) = after (onHandResults lib res s)"
| "step lib s Tick = after (updateHandTracking lib s)"
| "step lib s (SetOnHandUpdate cb) = setOnHandUpdate cb s"
| "step lib s (SetOnHandLost cb) = setOnHandLost cb s"
| "step lib s ToggleCameraFeed = toggleCameraFeed s"

definition run :: "'q library \<Rightarrow> event list \<Rightarrow> 'q state \<Rightarrow> 'q state" where
  "run lib evs s = foldl (step lib) s evs"

section \<open>Notions used to state the properties\<close>

text \<open>The extension ratio of one finger: tip-to-base distance over the hand size.\<close>

definition fingerRatio :: "landmark list \<Rightarrow> nat \<Rightarrow> nat \<Rightarrow> real" where
  "fingerRatio lms tip base =
     segmentLength (lms ! tip) (lms ! base) / segmentLength (lms ! 9) (lms ! 0)"

text \<open>
  The openness as the specification words it, with the thumb measured from its tip to the
  interphalangeal joint (index 3 in the detector's numbering) and the other fingers
  from tip to base knuckle.
\<close>

definition specFingerIndices :: "(nat \<times> nat) list" where
  "specFingerIndices = [(4, 3), (8, 5), (12, 9), (16, 13), (20, 17)]"

definition specExtensionRatios :: "landmark list \<Rightarrow> real list" where
  "specExtensionRatios lms =
     map (\<lambda>(tip, base). segmentLength (lms ! tip) (lms ! base) / segmentLength (lms ! 9) (lms ! 0))
       specFingerIndices"

definition specOpenness :: "landmark list \<Rightarrow> real" where
  "specOpenness lms =
     (if segmentLength (lms ! 9) (lms ! 0) < 1 / 1000 then 0
      else max 0 (min 1 ((sum_list (specExtensionRatios lms) / 5 - minRatio) / (maxRatio - minRatio))))"

text \<open>
  Uniform scaling by \<open>k\<close> about a centre \<open>c\<close>, on all three coordinates (an absent depth
  counts as 0, as the source reads it), and the scaling of a whole landmark set about
  its wrist.
\<close>

definition scaleAbout :: "real \<Rightarrow> landmark \<Rightarrow> landmark \<Rightarrow> landmark" where
  "scaleAbout k c p =
     \<lparr>px = px c + k * (px p - px c),
      py = py c + k * (py p - py c),
      pz = Some (orZero (pz c) + k * (orZero (pz p) - orZero (pz c)))\<rparr>"

definition scaleLandmarks :: "real \<Rightarrow> landmark list \<Rightarrow> landmark list" where
  "scaleLandmarks k lms = map (scaleAbout k (lms ! 0)) lms"

text \<open>The three openness variables of the state lie in the unit interval.\<close>

definition opennessInRange :: "'q state \<Rightarrow> bool" where
  "opennessInRange s =
     (0 \<le> smoothedOpenness s \<and> smoothedOpenness s \<le> 1
      \<and> 0 \<le> targetHandOpenness s \<and> targetHandOpenness s \<le> 1
      \<and> 0 \<le> handOpenness s \<and> handOpenness s \<le> 1)"

text \<open>
  \<open>ticks lib n s\<close> is the state after \<open>n\<close> consecutive calls of \<^verbatim>\<open>updateHandTracking\<close>
  (no detector frame in between), and \<open>gap lib s n\<close> the distance that then remains
  between the smoothed openness and the target.
\<close>

definition ticks :: "'q library \<Rightarrow> nat \<Rightarrow> 'q state \<Rightarrow> 'q state" where
  "ticks lib n s = run lib (replicate n Tick) s"

definition gap :: "'q library \<Rightarrow> 'q state \<Rightarrow> nat \<Rightarrow> real" where
  "gap lib s n = \<bar>targetHandOpenness s - smoothedOpenness (ticks lib n s)\<bar>"

text \<open>
  A detector result without a hand: the landmark list is absent or empty. An event
  leaves the handedness alone when it is anything but a frame that carries a hand.
\<close>

definition handAbsent :: "results \<Rightarrow> bool" where
  "handAbsent res = (multiHandLandmarks res = None \<or> multiHandLandmarks res = Some [])"

fun leavesHandedness :: "event \<Rightarrow> bool" where
  "leavesHandedness (Frame res) = handAbsent res"
| "leavesHandedness ev = True"

text \<open>
  The candidate directions of \<^verbatim>\<open>calculateHandRotation\<close> before they are normalised:
  wrist to middle MCP, and pinky MCP to index MCP.
\<close>

definition zeroVector :: Vector3 where
  "zeroVector = Vector3 0 0 0"

definition upCandidate :: "landmark list \<Rightarrow> Vector3" where
  "upCandidate lms = subVectors (toVector3 (lms ! 9)) (toVector3 (lms ! 0))"

definition rightCandidate :: "landmark list \<Rightarrow> Vector3" where
  "rightCandidate lms = subVectors (toVector3 (lms ! 5)) (toVector3 (lms ! 17))"

definition multiplyScalar :: "real \<Rightarrow> Vector3 \<Rightarrow> Vector3" where
  "multiplyScalar k a = Vector3 (k * vx a) (k * vy a) (k * vz a)"

subsection \<open>Sample inputs\<close>

text \<open>A degenerate hand: all 21 landmarks at the centre of the image.\<close>

definition flatHand :: "landmark list" where
  "flatHand = replicate 21 \<lparr>px = 1 / 2, py = 1 / 2, pz = None\<rparr>"

text \<open>
  A hand laid out along the x axis: hand size 0.5, every finger 0.3 long from base to
  tip, and the thumb's landmark 3 on its tip.
\<close>

definition onAxis :: "real \<Rightarrow> landmark" where
  "onAxis x = \<lparr>px = x, py = 1 / 2, pz = None\<rparr>"

definition sampleHand :: "landmark list" where
  "sampleHand = map onAxis
     [0, 0, 0, 3 / 10, 3 / 10,
      0, 0, 0, 3 / 10,
      5 / 10, 5 / 10, 5 / 10, 8 / 10,
      0, 0, 0, 3 / 10,
      0, 0, 0, 3 / 10]"

text \<open>
  A hand held upright in front of the camera: the middle MCP straight above the wrist
  in the image, the index MCP to its right and the pinky MCP to its left.
\<close>

definition uprightHand :: "landmark list" where
  "uprightHand = flatHand
     [9 := \<lparr>px = 1 / 2, py = 3 / 10, pz = None\<rparr>,
      5 := \<lparr>px = 6 / 10, py = 3 / 10, pz = None\<rparr>,
      17 := \<lparr>px = 4 / 10, py = 3 / 10, pz = None\<rparr>]"

text \<open>
  A stand-in for the quaternion library, with real numbers in the place of quaternions
  and linear interpolation in the place of \<^verbatim>\<open>slerp\<close>; it serves only to run the module
  on concrete inputs.
\<close>

definition sampleLibrary :: "real library" where
  "sampleLibrary =
     \<lparr>threeDefined = True, newQuaternion = 0,
      quaternionOfBasis = (\<lambda>r u f. vx r),
      slerp = (\<lambda>q t f. q + (t - q) * f)\<rparr>"

definition noHand :: results where
  "noHand = \<lparr>multiHandLandmarks = Some [], multiHandedness = Some []\<rparr>"

definition flatFrame :: results where
  "flatFrame = \<lparr>multiHandLandmarks = Some [flatHand], multiHandedness = Some [''Left'']\<rparr>"

text \<open>A state in which a left hand is being tracked and both callbacks are registered.\<close>

definition trackingState :: "real state" where
  "trackingState =
     initialState\<lparr>isHandDetected := True, handedness := ''Left'', targetHandOpenness := 1,
       landmarks := Some flatHand, onHandUpdate := Some 1, onHandLost := Some 2,
       handRotation := Some 0, targetHandRotation := Some 1, smoothedHandRotation := Some 0\<rparr>"

text \<open>
  An open hand held upright: the wrist at the centre of the image, the four finger
  knuckles in a row 0.2 above it, and every finger (the thumb from landmark 2) pointing
  straight up with its tip 0.12 above its base.
\<close>

definition point :: "real \<Rightarrow> real \<Rightarrow> landmark" where
  "point x y = \<lparr>px = x, py = y, pz = None\<rparr>"

definition openHand :: "landmark list" where
  "openHand =
     [point (50 / 100) (50 / 100),
      point (60 / 100) (50 / 100), point (65 / 100) (45 / 100),
      point (65 / 100) (39 / 100), point (65 / 100) (33 / 100),
      point (60 / 100) (30 / 100), point (60 / 100) (26 / 100),
      point (60 / 100) (22 / 100), point (60 / 100) (18 / 100),
      point (50 / 100) (30 / 100), point (50 / 100) (26 / 100),
      point (50 / 100) (22 / 100), point (50 / 100) (18 / 100),
      point (45 / 100) (30 / 100), point (45 / 100) (26 / 100),
      point (45 / 100) (22 / 100), point (45 / 100) (18 / 100),
      point (40 / 100) (30 / 100), point (40 / 100) (26 / 100),
      point (40 / 100) (22 / 100), point (40 / 100) (18 / 100)]"

definition openFrame :: results where
  "openFrame = \<lparr>multiHandLandmarks = Some [openHand], multiHandedness = Some [''Right'']\<rparr>"

text \<open>
  The state after initialisation and the registration of update callback number 1, before
  any frame and any tick.
\<close>

definition listeningState :: "real state" where
  "listeningState = run sampleLibrary [Init, SetOnHandUpdate (Some 1)] initialState"

section \<open>Properties of the openness computation\<close>

lemma orZero_simps: "orZero None = 0" "orZero (Some v) = v"
  by (simp_all add: orZero_def)

lemma segmentLength_along_x:
  "py a = py b \<Longrightarrow> pz a = pz b \<Longrightarrow> segmentLength a b = \<bar>px a - px b\<bar>"
  by (simp add: segmentLength_def Let_def)

lemma segmentLength_onAxis: "segmentLength (onAxis a) (onAxis b) = \<bar>a - b\<bar>"
  by (simp add: segmentLength_along_x onAxis_def)

lemma sumRatios_finite:
  "handSize \<noteq> 0 \<Longrightarrow> sumRatios handSize fs acc \<noteq> Inl NonFinite"
  by (induction handSize fs acc rule: sumRatios.induct)
     (simp_all add: jsDivide_def split: option.splits)

lemma openness_of_full_hand:
  assumes "length lms = 21" and "\<not> segmentLength (lms ! 9) (lms ! 0) < 1 / 1000"
  shows "calculateHandOpenness lms =
     Inr (max 0 (min 1
       (((fingerRatio lms 4 2 + fingerRatio lms 8 5 + fingerRatio lms 12 9
           + fingerRatio lms 16 13 + fingerRatio lms 20 17) / 5 - minRatio)
         / (maxRatio - minRatio))))"
proof -
  from assms(2) have nz: "segmentLength (lms ! 9) (lms ! 0) \<noteq> 0" by auto
  show ?thesis
    using assms nz
    by (simp add: calculateHandOpenness_def landmarkAt_def fingers_def fingerIndices_def
        jsDivide_def fingerRatio_def Let_def)
qed

lemma calculateHandOpenness_range:
  "calculateHandOpenness lms = Inr v \<Longrightarrow> 0 \<le> v \<and> v \<le> 1"
  by (auto simp add: calculateHandOpenness_def Let_def split: option.splits if_splits sum.splits)

lemma sampleHand_length: "length sampleHand = 21"
  by (simp add: sampleHand_def)

lemma sampleHand_size: "segmentLength (sampleHand ! 9) (sampleHand ! 0) = 1 / 2"
  by (simp add: sampleHand_def segmentLength_onAxis)

lemma sampleHand_openness: "calculateHandOpenness sampleHand = Inr (3 / 8)"
proof -
  have "\<not> segmentLength (sampleHand ! 9) (sampleHand ! 0) < 1 / 1000"
    by (simp add: sampleHand_size)
  from openness_of_full_hand [OF sampleHand_length this]
  show ?thesis
    by (simp add: fingerRatio_def sampleHand_def segmentLength_onAxis minRatio_def maxRatio_def)
qed

lemma sampleHand_specOpenness: "specOpenness sampleHand = 3 / 40"
  by (simp add: specOpenness_def specExtensionRatios_def specFingerIndices_def
      sampleHand_def segmentLength_onAxis minRatio_def maxRatio_def)

subsection \<open>Degenerate geometry\<close>

text \<open>
  Claim C5. When the wrist (index 0) and the middle-finger base knuckle (index 9) are
  closer than 0.001, the openness is exactly 0, returned as a value and not as an
  error; and on no landmark array at all does the function reach a division by a zero
  hand size.
\<close>

theorem degenerate_hand_returns_zero:
  "(landmarkAt lms 0 = Some wrist \<and> landmarkAt lms 9 = Some middleMCP
      \<and> segmentLength middleMCP wrist < 1 / 1000
    \<longrightarrow> calculateHandOpenness lms = Inr 0)
   \<and> calculateHandOpenness lms \<noteq> Inl NonFinite"
proof
  show "landmarkAt lms 0 = Some wrist \<and> landmarkAt lms 9 = Some middleMCP
      \<and> segmentLength middleMCP wrist < 1 / 1000
    \<longrightarrow> calculateHandOpenness lms = Inr 0"
    by (simp add: calculateHandOpenness_def)
next
  show "calculateHandOpenness lms \<noteq> Inl NonFinite"
  proof (cases "landmarkAt lms 9")
    case None
    then show ?thesis by (simp add: calculateHandOpenness_def)
  next
    case (Some m)
    note m = this
    show ?thesis
    proof (cases "landmarkAt lms 0")
      case None
      with m show ?thesis by (simp add: calculateHandOpenness_def)
    next
      case (Some w)
      show ?thesis
      proof (cases "segmentLength m w < 1 / 1000")
        case True
        with m Some show ?thesis by (simp add: calculateHandOpenness_def)
      next
        case False
        then have "segmentLength m w \<noteq> 0" by auto
        from sumRatios_finite [OF this]
        have "sumRatios (segmentLength m w) (fingers lms) 0 \<noteq> Inl NonFinite" .
        with m Some False show ?thesis
          by (auto simp add: calculateHandOpenness_def Let_def split: sum.splits)
      qed
    qed
  qed
qed

theorem degenerate_hand_returns_zero_witness:
  "landmarkAt flatHand 0 = Some (flatHand ! 0) \<and> landmarkAt flatHand 9 = Some (flatHand ! 9)
   \<and> segmentLength (flatHand ! 9) (flatHand ! 0) < 1 / 1000
   \<and> calculateHandOpenness flatHand = Inr 0"
  using degenerate_hand_returns_zero [of flatHand "flatHand ! 0" "flatHand ! 9"]
  by (simp add: flatHand_def landmarkAt_def segmentLength_def)

subsection \<open>Finger extension ratios\<close>

text \<open>
  Claim C7, as amended. On a set of 21 landmarks whose hand size is at least 0.001, the
  pairs measured are (tip, base) = (4, 2), (8, 5), (12, 9), (16, 13), (20, 17): the
  thumb is measured from its tip to landmark 2, the thumb's metacarpophalangeal joint,
  like the other four fingers. The loop sums the five ratios of tip-to-base distance
  to hand size, and the openness is their mean remapped from [0.45, 0.85] and clamped.
\<close>

theorem finger_ratios_use_base_knuckles:
  assumes "length lms = 21" and "1 / 1000 \<le> segmentLength (lms ! 9) (lms ! 0)"
  shows "fingers lms =
           [(Some (lms ! 4), Some (lms ! 2)), (Some (lms ! 8), Some (lms ! 5)),
            (Some (lms ! 12), Some (lms ! 9)), (Some (lms ! 16), Some (lms ! 13)),
            (Some (lms ! 20), Some (lms ! 17))]
         \<and> sumRatios (segmentLength (lms ! 9) (lms ! 0)) (fingers lms) 0 =
             Inr (fingerRatio lms 4 2 + fingerRatio lms 8 5 + fingerRatio lms 12 9
                  + fingerRatio lms 16 13 + fingerRatio lms 20 17)
         \<and> calculateHandOpenness lms =
             Inr (max 0 (min 1
               (((fingerRatio lms 4 2 + fingerRatio lms 8 5 + fingerRatio lms 12 9
                  + fingerRatio lms 16 13 + fingerRatio lms 20 17) / 5 - 45 / 100)
                 / (85 / 100 - 45 / 100))))"
proof -
  from assms(2) have nz: "segmentLength (lms ! 9) (lms ! 0) \<noteq> 0" by auto
  from assms(2) have big: "\<not> segmentLength (lms ! 9) (lms ! 0) < 1 / 1000" by simp
  have f: "fingers lms =
           [(Some (lms ! 4), Some (lms ! 2)), (Some (lms ! 8), Some (lms ! 5)),
            (Some (lms ! 12), Some (lms ! 9)), (Some (lms ! 16), Some (lms ! 13)),
            (Some (lms ! 20), Some (lms ! 17))]"
    using assms(1) by (simp add: fingers_def fingerIndices_def landmarkAt_def)
  have s: "sumRatios (segmentLength (lms ! 9) (lms ! 0)) (fingers lms) 0 =
             Inr (fingerRatio lms 4 2 + fingerRatio lms 8 5 + fingerRatio lms 12 9
                  + fingerRatio lms 16 13 + fingerRatio lms 20 17)"
    using nz by (simp add: f jsDivide_def fingerRatio_def)
  have c: "calculateHandOpenness lms =
             Inr (max 0 (min 1
               (((fingerRatio lms 4 2 + fingerRatio lms 8 5 + fingerRatio lms 12 9
                  + fingerRatio lms 16 13 + fingerRatio lms 20 17) / 5 - 45 / 100)
                 / (85 / 100 - 45 / 100))))"
    using openness_of_full_hand [OF assms(1) big] by (simp add: minRatio_def maxRatio_def)
  from f s c show ?thesis by (simp only: simp_thms)
qed

theorem finger_ratios_use_base_knuckles_witness:
  "length sampleHand = 21 \<and> 1 / 1000 \<le> segmentLength (sampleHand ! 9) (sampleHand ! 0)
   \<and> snd (hd (fingers sampleHand)) = Some (sampleHand ! 2)
   \<and> sumRatios (segmentLength (sampleHand ! 9) (sampleHand ! 0)) (fingers sampleHand) 0 = Inr 3"
proof -
  have big: "1 / 1000 \<le> segmentLength (sampleHand ! 9) (sampleHand ! 0)"
    by (simp add: sampleHand_size)
  have r: "fingerRatio sampleHand 4 2 + fingerRatio sampleHand 8 5 + fingerRatio sampleHand 12 9
        + fingerRatio sampleHand 16 13 + fingerRatio sampleHand 20 17 = 3"
    by (simp add: fingerRatio_def sampleHand_def segmentLength_onAxis)
  note inst = finger_ratios_use_base_knuckles [OF sampleHand_length big]
  from inst have f: "snd (hd (fingers sampleHand)) = Some (sampleHand ! 2)"
    by simp
  from inst have "sumRatios (segmentLength (sampleHand ! 9) (sampleHand ! 0)) (fingers sampleHand) 0
      = Inr (fingerRatio sampleHand 4 2 + fingerRatio sampleHand 8 5 + fingerRatio sampleHand 12 9
        + fingerRatio sampleHand 16 13 + fingerRatio sampleHand 20 17)"
    by (rule conjunct1 [OF conjunct2])
  then have s: "sumRatios (segmentLength (sampleHand ! 9) (sampleHand ! 0)) (fingers sampleHand) 0
      = Inr 3"
    by (simp only: r)
  from sampleHand_length big f s show ?thesis by (simp only: simp_thms)
qed

text \<open>
  The claim as it was stated (thumb measured to landmark 3) fails on the sample hand:
  the code returns 0.375 where the stated formula gives 0.075, and the base that the
  code pairs with the thumb tip is not landmark 3.
\<close>

theorem thumb_base_counterexample:
  "length sampleHand = 21
   \<and> \<not> segmentLength (sampleHand ! 9) (sampleHand ! 0) < 1 / 1000
   \<and> calculateHandOpenness sampleHand \<noteq> Inr (specOpenness sampleHand)
   \<and> snd (hd (fingers sampleHand)) \<noteq> landmarkAt sampleHand 3"
  apply (simp only: sampleHand_openness sampleHand_specOpenness)
  apply (simp add: fingers_def fingerIndices_def landmarkAt_def sampleHand_def segmentLength_onAxis)
  apply (simp add: onAxis_def)
  done

subsection \<open>Scaling about the wrist\<close>

lemma segmentLength_scaleAbout:
  "segmentLength (scaleAbout k c a) (scaleAbout k c b) = \<bar>k\<bar> * segmentLength a b"
proof -
  let ?dx = "px a - px b" and ?dy = "py a - py b" and ?dz = "orZero (pz a) - orZero (pz b)"
  have "segmentLength (scaleAbout k c a) (scaleAbout k c b)
        = sqrt ((k * ?dx) * (k * ?dx) + (k * ?dy) * (k * ?dy) + (k * ?dz) * (k * ?dz))"
    by (simp add: segmentLength_def scaleAbout_def orZero_simps Let_def algebra_simps)
  also have "(k * ?dx) * (k * ?dx) + (k * ?dy) * (k * ?dy) + (k * ?dz) * (k * ?dz)
        = k\<^sup>2 * (?dx * ?dx + ?dy * ?dy + ?dz * ?dz)"
    by (simp add: power2_eq_square algebra_simps)
  also have "sqrt \<dots> = \<bar>k\<bar> * sqrt (?dx * ?dx + ?dy * ?dy + ?dz * ?dz)"
    by (simp add: real_sqrt_mult)
  finally show ?thesis by (simp add: segmentLength_def Let_def)
qed

lemma scaleLandmarks_length: "length (scaleLandmarks k lms) = length lms"
  by (simp add: scaleLandmarks_def)

lemma scaleLandmarks_nth:
  "i < length lms \<Longrightarrow> scaleLandmarks k lms ! i = scaleAbout k (lms ! 0) (lms ! i)"
  by (simp add: scaleLandmarks_def)

lemma fingerRatio_scaleLandmarks:
  assumes "length lms = 21" "0 < k" "tip < 21" "base < 21"
  shows "fingerRatio (scaleLandmarks k lms) tip base = fingerRatio lms tip base"
  using assms
  by (simp add: fingerRatio_def scaleLandmarks_nth segmentLength_scaleAbout)

text \<open>
  Claim C1, as amended. Scaling all 21 landmarks by \<open>k > 0\<close> about the wrist leaves the
  openness unchanged whenever the hand size is at least 0.001 both before and after
  the scaling.
\<close>

theorem openness_scale_invariant:
  assumes "length lms = 21" and "0 < k"
    and "1 / 1000 \<le> segmentLength (lms ! 9) (lms ! 0)"
    and "1 / 1000 \<le> k * segmentLength (lms ! 9) (lms ! 0)"
  shows "calculateHandOpenness (scaleLandmarks k lms) = calculateHandOpenness lms"
proof -
  have len: "length (scaleLandmarks k lms) = 21"
    using assms(1) by (simp add: scaleLandmarks_length)
  have hs: "segmentLength (scaleLandmarks k lms ! 9) (scaleLandmarks k lms ! 0)
              = k * segmentLength (lms ! 9) (lms ! 0)"
    using assms(1,2) by (simp add: scaleLandmarks_nth segmentLength_scaleAbout)
  have big: "\<not> segmentLength (scaleLandmarks k lms ! 9) (scaleLandmarks k lms ! 0) < 1 / 1000"
    using assms(4) by (simp add: hs)
  have big0: "\<not> segmentLength (lms ! 9) (lms ! 0) < 1 / 1000"
    using assms(3) by simp
  show ?thesis
    using assms(1,2)
    by (simp add: openness_of_full_hand [OF len big] openness_of_full_hand [OF assms(1) big0]
        fingerRatio_scaleLandmarks)
qed

theorem openness_scale_invariant_witness:
  "length sampleHand = 21 \<and> (0::real) < 2
   \<and> 1 / 1000 \<le> segmentLength (sampleHand ! 9) (sampleHand ! 0)
   \<and> 1 / 1000 \<le> 2 * segmentLength (sampleHand ! 9) (sampleHand ! 0)
   \<and> calculateHandOpenness (scaleLandmarks 2 sampleHand) = Inr (3 / 8)
   \<and> calculateHandOpenness sampleHand = Inr (3 / 8)"
proof -
  have "calculateHandOpenness (scaleLandmarks 2 sampleHand) = calculateHandOpenness sampleHand"
    by (rule openness_scale_invariant) (simp_all add: sampleHand_length sampleHand_size)
  then show ?thesis
    by (simp add: sampleHand_openness sampleHand_length sampleHand_size)
qed

text \<open>
  The claim as it was stated asks only for the hand size before the scaling to exceed
  0.001. The sample hand has size 0.5 and openness 0.375; scaled by 0.001 its size is
  0.0005, below the threshold, and the openness is 0.
\<close>

theorem openness_scale_counterexample:
  "length sampleHand = 21
   \<and> 1 / 1000 < segmentLength (sampleHand ! 9) (sampleHand ! 0)
   \<and> (0::real) < 1 / 1000
   \<and> calculateHandOpenness (scaleLandmarks (1 / 1000) sampleHand)
       \<noteq> calculateHandOpenness sampleHand"
proof -
  have "segmentLength (scaleLandmarks (1 / 1000) sampleHand ! 9)
          (scaleLandmarks (1 / 1000) sampleHand ! 0) = 1 / 2000"
    by (simp add: scaleLandmarks_nth sampleHand_length segmentLength_scaleAbout sampleHand_size)
  then have "calculateHandOpenness (scaleLandmarks (1 / 1000) sampleHand) = Inr 0"
    by (simp add: calculateHandOpenness_def landmarkAt_def scaleLandmarks_length sampleHand_length)
  then show ?thesis
    by (simp add: sampleHand_openness sampleHand_length sampleHand_size)
qed

section \<open>The openness state\<close>

lemma onHandResults_openness:
  "smoothedOpenness (after (onHandResults lib res s)) = smoothedOpenness s
   \<and> handOpenness (after (onHandResults lib res s)) = handOpenness s"
  by (simp add: onHandResults_def Let_def split: option.splits list.splits sum.splits prod.splits)

lemma onHandResults_target:
  "targetHandOpenness (after (onHandResults lib res s)) = targetHandOpenness s
   \<or> targetHandOpenness (after (onHandResults lib res s)) = 0
   \<or> (\<exists>hand. calculateHandOpenness hand
          = Inr (targetHandOpenness (after (onHandResults lib res s))))"
  by (auto simp add: onHandResults_def Let_def split: option.splits list.splits sum.splits prod.splits)

lemma onHandResults_inRange:
  assumes "opennessInRange s"
  shows "opennessInRange (after (onHandResults lib res s))"
  using assms onHandResults_target [of lib res s] onHandResults_openness [of lib res s]
  by (auto simp add: opennessInRange_def dest: calculateHandOpenness_range)

lemma updateHandTracking_openness:
  "smoothedOpenness (after (updateHandTracking lib s))
     = smoothedOpenness s + (targetHandOpenness s - smoothedOpenness s) * SMOOTHING
   \<and> handOpenness (after (updateHandTracking lib s))
     = smoothedOpenness s + (targetHandOpenness s - smoothedOpenness s) * SMOOTHING
   \<and> targetHandOpenness (after (updateHandTracking lib s)) = targetHandOpenness s"
  by (simp add: updateHandTracking_def Let_def split: option.splits)

lemma convex_step:
  fixes a t :: real
  assumes "0 \<le> a" "a \<le> 1" "0 \<le> t" "t \<le> 1"
  shows "0 \<le> a + (t - a) * SMOOTHING \<and> a + (t - a) * SMOOTHING \<le> 1"
proof -
  have eq: "a + (t - a) * SMOOTHING = (88 / 100) * a + (12 / 100) * t"
    unfolding SMOOTHING_def by (simp add: field_simps)
  have "0 \<le> (88 / 100) * a + (12 / 100) * t" using assms by simp
  moreover have "(88 / 100) * a + (12 / 100) * t \<le> 1" using assms by simp
  ultimately show ?thesis by (simp only: eq)
qed

lemma updateHandTracking_inRange:
  assumes "opennessInRange s"
  shows "opennessInRange (after (updateHandTracking lib s))"
  using assms convex_step [of "smoothedOpenness s" "targetHandOpenness s"]
  by (simp add: opennessInRange_def updateHandTracking_openness)

lemma step_inRange: "opennessInRange s \<Longrightarrow> opennessInRange (step lib s ev)"
  by (cases ev)
     (simp_all add: onHandResults_inRange updateHandTracking_inRange,
      simp_all add: opennessInRange_def initQuaternions_def setOnHandUpdate_def
        setOnHandLost_def toggleCameraFeed_def)

lemma run_inRange: "opennessInRange s \<Longrightarrow> opennessInRange (run lib evs s)"
  unfolding run_def by (induction evs arbitrary: s) (simp_all add: step_inRange)

lemma initialState_inRange: "opennessInRange initialState"
  by (simp add: opennessInRange_def initialState_def)

text \<open>
  Claim C3. From the initial state, after any sequence of calls (initialisation,
  detector frames, update ticks, setters), the smoothed openness and the target
  openness lie in [0, 1]. The three facts behind it: an update tick replaces the smoothed
  openness by the convex combination \<open>(1 - \<alpha>) * smoothed + \<alpha> * target\<close> with
  \<open>\<alpha> = SMOOTHING\<close> in [0, 1]; every value that \<^verbatim>\<open>calculateHandOpenness\<close> returns is in
  [0, 1]; and a frame without a hand sets the target to 0.
\<close>

theorem smoothed_openness_in_unit_interval:
  "0 \<le> smoothedOpenness (run lib evs initialState)
   \<and> smoothedOpenness (run lib evs initialState) \<le> 1
   \<and> 0 \<le> targetHandOpenness (run lib evs initialState)
   \<and> targetHandOpenness (run lib evs initialState) \<le> 1
   \<and> smoothedOpenness (after (updateHandTracking lib s))
       = (1 - SMOOTHING) * smoothedOpenness s + SMOOTHING * targetHandOpenness s
   \<and> 0 \<le> SMOOTHING \<and> SMOOTHING \<le> 1
   \<and> (calculateHandOpenness lms = Inr v \<longrightarrow> 0 \<le> v \<and> v \<le> 1)
   \<and> (multiHandLandmarks res = None \<or> multiHandLandmarks res = Some []
        \<longrightarrow> targetHandOpenness (after (onHandResults lib res s)) = 0)"
proof -
  have inv: "opennessInRange (run lib evs initialState)"
    by (rule run_inRange [OF initialState_inRange])
  have conv: "smoothedOpenness (after (updateHandTracking lib s))
       = (1 - SMOOTHING) * smoothedOpenness s + SMOOTHING * targetHandOpenness s"
    by (simp add: updateHandTracking_openness algebra_simps)
  have lost: "multiHandLandmarks res = None \<or> multiHandLandmarks res = Some []
        \<longrightarrow> targetHandOpenness (after (onHandResults lib res s)) = 0"
    by (auto simp add: onHandResults_def Let_def)
  have alpha: "0 \<le> SMOOTHING \<and> SMOOTHING \<le> 1"
    by (simp add: SMOOTHING_def)
  from inv conv lost alpha calculateHandOpenness_range [of lms v]
  show ?thesis
    unfolding opennessInRange_def by blast
qed

lemma flatHand_openness: "calculateHandOpenness flatHand = Inr 0"
  by (simp add: calculateHandOpenness_def flatHand_def landmarkAt_def segmentLength_def)

theorem smoothed_openness_in_unit_interval_witness:
  "calculateHandOpenness flatHand = Inr 0
   \<and> multiHandLandmarks noHand = Some []
   \<and> 0 \<le> smoothedOpenness (run sampleLibrary [Init, Frame flatFrame, Tick, Frame noHand, Tick] initialState)
   \<and> smoothedOpenness (run sampleLibrary [Init, Frame flatFrame, Tick, Frame noHand, Tick] initialState) \<le> 1
   \<and> smoothedOpenness (after (updateHandTracking sampleLibrary trackingState)) = 12 / 100
   \<and> targetHandOpenness (after (onHandResults sampleLibrary noHand trackingState)) = 0"
  using smoothed_openness_in_unit_interval
    [of sampleLibrary "[Init, Frame flatFrame, Tick, Frame noHand, Tick]" trackingState
      flatHand 0 noHand]
  by (simp add: flatHand_openness noHand_def trackingState_def initialState_def SMOOTHING_def)

subsection \<open>Repeated ticks with the target held\<close>

lemma ticks_0: "ticks lib 0 s = s"
  by (simp add: ticks_def run_def)

lemma ticks_Suc: "ticks lib (Suc n) s = after (updateHandTracking lib (ticks lib n s))"
proof -
  have "replicate (Suc n) Tick = replicate n Tick @ [Tick]"
    by (simp add: replicate_append_same)
  then show ?thesis
    by (simp only: ticks_def run_def foldl_append foldl_Cons foldl_Nil step.simps)
qed

lemma ticks_target: "targetHandOpenness (ticks lib n s) = targetHandOpenness s"
  by (induction n) (simp_all add: ticks_0 ticks_Suc updateHandTracking_openness)

lemma ticks_gap:
  "targetHandOpenness s - smoothedOpenness (ticks lib n s)
     = (1 - SMOOTHING) ^ n * (targetHandOpenness s - smoothedOpenness s)"
proof (induction n)
  case 0
  show ?case by (simp add: ticks_0)
next
  case (Suc n)
  have "targetHandOpenness s - smoothedOpenness (ticks lib (Suc n) s)
        = (1 - SMOOTHING) * (targetHandOpenness s - smoothedOpenness (ticks lib n s))"
    by (simp add: ticks_Suc updateHandTracking_openness ticks_target algebra_simps)
  also have "\<dots> = (1 - SMOOTHING) ^ Suc n * (targetHandOpenness s - smoothedOpenness s)"
    by (simp only: Suc.IH power_Suc mult.assoc)
  finally show ?case .
qed

lemma factor_bounds: "0 < 1 - SMOOTHING" "1 - SMOOTHING < 1" "1 - SMOOTHING = 88 / 100"
  by (simp_all add: SMOOTHING_def)

text \<open>
  Claim C4. Across consecutive update ticks the target stays as it is and the distance
  between target and smoothed openness is multiplied by \<open>1 - SMOOTHING = 0.88\<close> at each
  tick: it never grows, it shrinks strictly unless it is already 0, and it tends to 0.
  The smoothed value never crosses the target: it stays on the side where it started.
  None of this needs the target to be in [0, 1].
\<close>

theorem smoothing_converges_without_overshoot:
  "targetHandOpenness (ticks lib n s) = targetHandOpenness s
    \<and> gap lib s (Suc n) = (1 - SMOOTHING) * gap lib s n
    \<and> 1 - SMOOTHING = 88 / 100
    \<and> gap lib s (Suc n) \<le> gap lib s n
    \<and> (smoothedOpenness s \<noteq> targetHandOpenness s \<longrightarrow> gap lib s (Suc n) < gap lib s n)
    \<and> gap lib s \<longlonglongrightarrow> 0
    \<and> (smoothedOpenness s \<le> targetHandOpenness s
         \<longrightarrow> smoothedOpenness (ticks lib n s) \<le> targetHandOpenness s)
    \<and> (targetHandOpenness s \<le> smoothedOpenness s
         \<longrightarrow> targetHandOpenness s \<le> smoothedOpenness (ticks lib n s))"
proof -
  let ?c = "1 - SMOOTHING"
  let ?t = "targetHandOpenness s"
  let ?gap = "gap lib s"
  have gap_eq: "?gap m = ?c ^ m * \<bar>?t - smoothedOpenness s\<bar>" for m
    using factor_bounds(1) by (simp add: gap_def ticks_gap abs_mult)
  have 1: "targetHandOpenness (ticks lib n s) = ?t"
    by (simp add: ticks_target)
  have 2: "?gap (Suc n) = ?c * ?gap n"
    by (simp add: gap_eq)
  have nonneg: "0 \<le> ?gap n" by (simp add: gap_def)
  have 4: "?gap (Suc n) \<le> ?gap n"
  proof -
    have "?c * ?gap n \<le> 1 * ?gap n"
      using factor_bounds(2) nonneg by (intro mult_right_mono) simp_all
    then show ?thesis by (simp add: 2)
  qed
  have 5: "smoothedOpenness s \<noteq> ?t \<longrightarrow> ?gap (Suc n) < ?gap n"
  proof
    assume "smoothedOpenness s \<noteq> ?t"
    then have "0 < ?gap n"
      using factor_bounds(1) by (simp add: gap_eq)
    then have "?c * ?gap n < 1 * ?gap n"
      using factor_bounds(2) by (intro mult_strict_right_mono) simp_all
    then show "?gap (Suc n) < ?gap n" by (simp add: 2)
  qed
  have 6: "?gap \<longlonglongrightarrow> 0"
  proof -
    have "(\<lambda>m. ?c ^ m) \<longlonglongrightarrow> 0"
      using factor_bounds(1,2) by (intro LIMSEQ_realpow_zero) simp_all
    then have "(\<lambda>m. ?c ^ m * \<bar>?t - smoothedOpenness s\<bar>) \<longlonglongrightarrow> 0 * \<bar>?t - smoothedOpenness s\<bar>"
      by (intro tendsto_mult tendsto_const)
    then show ?thesis by (simp add: gap_eq [abs_def])
  qed
  have pw: "0 \<le> ?c ^ n" using factor_bounds(1) by simp
  have 7: "smoothedOpenness s \<le> ?t \<longrightarrow> smoothedOpenness (ticks lib n s) \<le> ?t"
  proof
    assume "smoothedOpenness s \<le> ?t"
    then have "0 \<le> ?c ^ n * (?t - smoothedOpenness s)"
      using pw by (intro mult_nonneg_nonneg) simp_all
    then show "smoothedOpenness (ticks lib n s) \<le> ?t"
      using ticks_gap [of s lib n] by simp
  qed
  have 8: "?t \<le> smoothedOpenness s \<longrightarrow> ?t \<le> smoothedOpenness (ticks lib n s)"
  proof
    assume "?t \<le> smoothedOpenness s"
    then have "?c ^ n * (?t - smoothedOpenness s) \<le> 0"
      using pw by (intro mult_nonneg_nonpos) simp_all
    then show "?t \<le> smoothedOpenness (ticks lib n s)"
      using ticks_gap [of s lib n] by simp
  qed
  from 1 2 factor_bounds(3) 4 5 6 7 8 show ?thesis by (simp only: simp_thms)
qed

theorem smoothing_converges_without_overshoot_witness:
  "smoothedOpenness trackingState \<le> targetHandOpenness trackingState
   \<and> smoothedOpenness trackingState \<noteq> targetHandOpenness trackingState
   \<and> smoothedOpenness (ticks sampleLibrary 2 trackingState) \<le> targetHandOpenness trackingState
   \<and> gap sampleLibrary trackingState 3 < gap sampleLibrary trackingState 2"
  using smoothing_converges_without_overshoot [of sampleLibrary 2 trackingState]
  by (simp add: trackingState_def initialState_def eval_nat_numeral)

section \<open>Frames\<close>

text \<open>
  Claim C6. A detector result whose landmark list is absent or empty is processed
  without an exception; afterwards the detection flag is false, the stored landmarks
  are null, the target openness is 0 (whatever it was), and the registered hand-lost
  callback has been invoked once (nothing is invoked when none is registered).
\<close>

theorem hand_lost_frame:
  assumes "multiHandLandmarks res = None \<or> multiHandLandmarks res = Some []"
  shows "raised (onHandResults lib res s) = None
    \<and> isHandDetected (after (onHandResults lib res s)) = False
    \<and> landmarks (after (onHandResults lib res s)) = None
    \<and> targetHandOpenness (after (onHandResults lib res s)) = 0
    \<and> getTargetOpenness (after (onHandResults lib res s)) = 0
    \<and> notified (onHandResults lib res s)
        = (case onHandLost s of None \<Rightarrow> [] | Some cb \<Rightarrow> [HandLost cb])"
  using assms by (auto simp add: onHandResults_def getTargetOpenness_def Let_def)

theorem hand_lost_frame_witness:
  "multiHandLandmarks noHand = Some []
   \<and> isHandDetected trackingState
   \<and> targetHandOpenness trackingState = 1
   \<and> \<not> isHandDetected (after (onHandResults sampleLibrary noHand trackingState))
   \<and> landmarks (after (onHandResults sampleLibrary noHand trackingState)) = None
   \<and> targetHandOpenness (after (onHandResults sampleLibrary noHand trackingState)) = 0
   \<and> notified (onHandResults sampleLibrary noHand trackingState) = [HandLost 2]"
  using hand_lost_frame [of noHand sampleLibrary trackingState]
  by (simp add: noHand_def trackingState_def initialState_def)

lemma segmentLength_point_above: "segmentLength (point x a) (point x b) = \<bar>a - b\<bar>"
  by (simp add: segmentLength_def point_def Let_def)

lemma openHand_length: "length openHand = 21"
  by (simp add: openHand_def)

lemma openHand_size: "segmentLength (openHand ! 9) (openHand ! 0) = 1 / 5"
  by (simp add: openHand_def segmentLength_point_above)

lemma openHand_openness: "calculateHandOpenness openHand = Inr (3 / 8)"
proof -
  have "\<not> segmentLength (openHand ! 9) (openHand ! 0) < 1 / 1000"
    by (simp add: openHand_size)
  from openness_of_full_hand [OF openHand_length this]
  show ?thesis
    by (simp add: fingerRatio_def openHand_def segmentLength_point_above minRatio_def maxRatio_def)
qed

lemma drawHandLandmarks_openHand: "drawHandLandmarks openHand = None"
  by (simp add: drawHandLandmarks_def connections_def landmarkAt_def openHand_length)

lemma normalize_x_axis: "0 < a \<Longrightarrow> normalize (Vector3 a 0 0) = Vector3 1 0 0"
  by (simp add: normalize_def vlength_def dot_def Let_def)

lemma normalize_y_axis: "0 < a \<Longrightarrow> normalize (Vector3 0 a 0) = Vector3 0 1 0"
  by (simp add: normalize_def vlength_def dot_def Let_def)

lemma normalize_z_axis: "0 < a \<Longrightarrow> normalize (Vector3 0 0 a) = Vector3 0 0 1"
  by (simp add: normalize_def vlength_def dot_def Let_def)

lemma openHand_candidates:
  "upCandidate openHand = Vector3 0 (1 / 5) 0"
  "rightCandidate openHand = Vector3 (1 / 5) 0 0"
  by (simp_all add: openHand_def point_def upCandidate_def rightCandidate_def
      toVector3_def subVectors_def orZero_def)

lemma openHand_basis:
  "handBasis openHand = Inr (Vector3 1 0 0, Vector3 0 1 0, Vector3 0 0 1)"
proof -
  have u: "normalize (upCandidate openHand) = Vector3 0 1 0"
    by (simp add: openHand_candidates normalize_y_axis)
  have r: "normalize (rightCandidate openHand) = Vector3 1 0 0"
    by (simp add: openHand_candidates normalize_x_axis)
  have f: "normalize (crossVectors (Vector3 1 0 0) (Vector3 0 1 0)) = Vector3 0 0 1"
    by (simp add: crossVectors_def normalize_z_axis)
  have r': "normalize (crossVectors (Vector3 0 1 0) (Vector3 0 0 1)) = Vector3 1 0 0"
    by (simp add: crossVectors_def normalize_x_axis)
  have "handBasis openHand =
      Inr (normalize (crossVectors (normalize (upCandidate openHand))
             (normalize (crossVectors (normalize (rightCandidate openHand))
                (normalize (upCandidate openHand))))),
           normalize (upCandidate openHand),
           normalize (crossVectors (normalize (rightCandidate openHand))
                (normalize (upCandidate openHand))))"
    by (simp add: handBasis_def landmarkAt_def openHand_length Let_def upCandidate_def
        rightCandidate_def)
  then show ?thesis by (simp only: u r f r')
qed

lemma openHand_rotation: "calculateHandRotation sampleLibrary openHand = Inr (Some 1)"
  by (simp add: calculateHandRotation_def openHand_basis sampleLibrary_def)

lemma listeningState_fields:
  "handOpenness listeningState = 0"
  "handRotation listeningState = Some 0"
  "onHandUpdate listeningState = Some 1"
  by (simp_all add: listeningState_def run_def initQuaternions_def setOnHandUpdate_def
      sampleLibrary_def initialState_def)

lemma openFrame_outcome:
  "onHandResults sampleLibrary openFrame s =
     \<lparr>raised = None,
      notified = (case onHandUpdate s of None \<Rightarrow> []
                  | Some cb \<Rightarrow> [HandUpdate cb (Snapshot (handOpenness s) (handRotation s) openHand)]),
      after = s\<lparr>isHandDetected := True, landmarks := Some openHand, handedness := ''Right'',
                targetHandOpenness := 3 / 8, targetHandRotation := Some 1\<rparr>\<rparr>"
  by (simp add: onHandResults_def openFrame_def drawHandLandmarks_openHand openHand_openness
      openHand_rotation Let_def split: option.split)

text \<open>
  Claim C8, as amended. When a frame that carries a hand is processed to the end (no
  exception) and an update callback is registered, exactly one notification is issued:
  that callback, with a snapshot made of the published openness and rotation as the
  last update tick left them and of this frame's landmark set. The frame's own
  measurements are not in the snapshot: they become the target openness and the target
  rotation, and the frame changes neither the published nor the smoothed values.
\<close>

theorem hand_update_notified_once:
  assumes "multiHandLandmarks res = Some (hand # others)"
    and "raised (onHandResults lib res s) = None"
    and "onHandUpdate s = Some cb"
  shows "notified (onHandResults lib res s)
           = [HandUpdate cb (Snapshot (handOpenness s) (handRotation s) hand)]
    \<and> isHandDetected (after (onHandResults lib res s))
    \<and> landmarks (after (onHandResults lib res s)) = Some hand
    \<and> calculateHandOpenness hand = Inr (targetHandOpenness (after (onHandResults lib res s)))
    \<and> calculateHandRotation lib hand = Inr (targetHandRotation (after (onHandResults lib res s)))
    \<and> handOpenness (after (onHandResults lib res s)) = handOpenness s
    \<and> handRotation (after (onHandResults lib res s)) = handRotation s
    \<and> smoothedOpenness (after (onHandResults lib res s)) = smoothedOpenness s
    \<and> smoothedHandRotation (after (onHandResults lib res s)) = smoothedHandRotation s"
  using assms
  by (auto simp add: onHandResults_def Let_def split: option.splits list.splits sum.splits)

theorem hand_update_notified_once_witness:
  "multiHandLandmarks openFrame = Some (openHand # [])
   \<and> raised (onHandResults sampleLibrary openFrame listeningState) = None
   \<and> onHandUpdate listeningState = Some 1
   \<and> notified (onHandResults sampleLibrary openFrame listeningState)
           = [HandUpdate 1 (Snapshot 0 (Some 0) openHand)]
   \<and> landmarks (after (onHandResults sampleLibrary openFrame listeningState)) = Some openHand
   \<and> calculateHandOpenness openHand
       = Inr (targetHandOpenness (after (onHandResults sampleLibrary openFrame listeningState)))"
proof -
  have h1: "multiHandLandmarks openFrame = Some (openHand # [])"
    by (simp add: openFrame_def)
  have h2: "raised (onHandResults sampleLibrary openFrame listeningState) = None"
    by (simp add: openFrame_outcome)
  note h3 = listeningState_fields(3)
  from hand_update_notified_once [OF h1 h2 h3] h1 h2 h3 show ?thesis
    by (simp add: listeningState_fields)
qed

text \<open>
  The claim as it was stated has the snapshot carry the current frame's openness and
  orientation. On the first frame after initialisation, with the open hand, the frame
  measures openness 0.375 and (in the stand-in library) rotation 1, and the callback
  receives openness 0 and the initial rotation 0.
\<close>

theorem snapshot_not_of_frame_counterexample:
  "multiHandLandmarks openFrame = Some [openHand]
   \<and> onHandUpdate listeningState = Some 1
   \<and> raised (onHandResults sampleLibrary openFrame listeningState) = None
   \<and> calculateHandOpenness openHand = Inr (3 / 8)
   \<and> calculateHandRotation sampleLibrary openHand = Inr (Some 1)
   \<and> targetHandOpenness (after (onHandResults sampleLibrary openFrame listeningState)) = 3 / 8
   \<and> targetHandRotation (after (onHandResults sampleLibrary openFrame listeningState)) = Some 1
   \<and> notified (onHandResults sampleLibrary openFrame listeningState)
       = [HandUpdate 1 (Snapshot 0 (Some 0) openHand)]
   \<and> notified (onHandResults sampleLibrary openFrame listeningState)
       \<noteq> [HandUpdate 1 (Snapshot (3 / 8) (Some 1) openHand)]"
  by (simp add: openFrame_outcome listeningState_fields openHand_openness openHand_rotation)
     (simp add: openFrame_def)

lemma step_handedness: "leavesHandedness ev \<Longrightarrow> handedness (step lib s ev) = handedness s"
  by (cases ev)
     (auto simp add: handAbsent_def onHandResults_def updateHandTracking_def Let_def
        initQuaternions_def setOnHandUpdate_def setOnHandLost_def toggleCameraFeed_def
        split: option.splits)

text \<open>
  Claim C9. Handedness is sticky: a sequence of calls none of which is a frame carrying
  a hand (frames without a hand, update ticks, setters) leaves the value that
  \<^verbatim>\<open>getHandedness\<close> reports as it was; in particular a reported \<open>Left\<close> stays \<open>Left\<close>
  while the hand is lost, for any number of frames.
\<close>

theorem handedness_sticky:
  assumes "list_all leavesHandedness evs"
  shows "getHandedness (run lib evs s) = getHandedness s"
  using assms unfolding run_def getHandedness_def
  by (induction evs arbitrary: s) (simp_all add: step_handedness)

theorem handedness_sticky_witness:
  "list_all leavesHandedness [Frame noHand, Tick, Frame noHand, Tick]
   \<and> getHandedness trackingState = ''Left''
   \<and> getHandedness (run sampleLibrary [Frame noHand, Tick, Frame noHand, Tick] trackingState) = ''Left''"
  using handedness_sticky [of "[Frame noHand, Tick, Frame noHand, Tick]" sampleLibrary trackingState]
  by (simp add: handAbsent_def noHand_def getHandedness_def trackingState_def initialState_def)

section \<open>Smoothing of the orientation\<close>

text \<open>
  Claim C10. An update tick replaces the smoothed orientation by the spherical
  interpolation from it towards the target by the fraction \<open>SMOOTHING * 1.5 = 0.18\<close>
  when a hand is detected and both the target and the smoothed quaternion exist; in
  every other case the tick leaves the smoothed orientation exactly as it was.
\<close>

theorem rotation_smoothing:
  "(isHandDetected s \<and> targetHandRotation s = Some target \<and> smoothedHandRotation s = Some smoothed
      \<longrightarrow> smoothedHandRotation (after (updateHandTracking lib s))
            = Some (slerp lib smoothed target (SMOOTHING * (15 / 10))))
   \<and> (\<not> isHandDetected s \<or> targetHandRotation s = None \<or> smoothedHandRotation s = None
      \<longrightarrow> smoothedHandRotation (after (updateHandTracking lib s)) = smoothedHandRotation s)
   \<and> SMOOTHING = 12 / 100 \<and> SMOOTHING * (15 / 10) = 18 / 100"
  by (auto simp add: updateHandTracking_def Let_def SMOOTHING_def split: option.splits)

theorem rotation_smoothing_witness:
  "isHandDetected trackingState \<and> targetHandRotation trackingState = Some 1
   \<and> smoothedHandRotation trackingState = Some 0
   \<and> smoothedHandRotation (after (updateHandTracking sampleLibrary trackingState)) = Some (18 / 100)
   \<and> \<not> isHandDetected (trackingState\<lparr>isHandDetected := False\<rparr>)
   \<and> smoothedHandRotation
        (after (updateHandTracking sampleLibrary (trackingState\<lparr>isHandDetected := False\<rparr>))) = Some 0"
  using rotation_smoothing [of trackingState 1 0 sampleLibrary]
    rotation_smoothing [of "trackingState\<lparr>isHandDetected := False\<rparr>" 1 0 sampleLibrary]
  by (simp add: trackingState_def initialState_def sampleLibrary_def)

section \<open>The orientation basis\<close>

lemma dot_self_nonneg: "0 \<le> dot a a"
  by (simp add: dot_def)

lemma dot_self_zero_iff: "dot a a = 0 \<longleftrightarrow> vx a = 0 \<and> vy a = 0 \<and> vz a = 0"
proof -
  have xy: "0 \<le> vx a * vx a + vy a * vy a" and z: "0 \<le> vz a * vz a"
    by simp_all
  have "dot a a = 0 \<longleftrightarrow> vx a * vx a + vy a * vy a = 0 \<and> vz a * vz a = 0"
    unfolding dot_def by (rule add_nonneg_eq_0_iff [OF xy z])
  then show ?thesis
    by (simp add: sum_squares_eq_zero_iff)
qed

lemma vlength_zero_iff: "vlength a = 0 \<longleftrightarrow> a = zeroVector"
  by (cases a) (simp add: vlength_def dot_self_zero_iff zeroVector_def)

lemma vlength_square: "vlength a * vlength a = dot a a"
  by (simp add: vlength_def dot_self_nonneg)

lemma normalize_multiplyScalar:
  "vlength a \<noteq> 0 \<Longrightarrow> normalize a = multiplyScalar (1 / vlength a) a"
  by (simp add: normalize_def multiplyScalar_def Let_def)

lemma dot_multiplyScalar_left: "dot (multiplyScalar k a) b = k * dot a b"
  by (simp add: dot_def multiplyScalar_def algebra_simps)

lemma dot_multiplyScalar_right: "dot a (multiplyScalar k b) = k * dot a b"
  by (simp add: dot_def multiplyScalar_def algebra_simps)

lemma cross_multiplyScalar_left:
  "crossVectors (multiplyScalar k a) b = multiplyScalar k (crossVectors a b)"
  by (simp add: crossVectors_def multiplyScalar_def algebra_simps)

lemma cross_multiplyScalar_right:
  "crossVectors a (multiplyScalar k b) = multiplyScalar k (crossVectors a b)"
  by (simp add: crossVectors_def multiplyScalar_def algebra_simps)

lemma multiplyScalar_zero_iff: "multiplyScalar k a = zeroVector \<longleftrightarrow> k = 0 \<or> a = zeroVector"
  by (cases a) (auto simp add: multiplyScalar_def zeroVector_def)

lemma normalize_unit:
  assumes "vlength a \<noteq> 0"
  shows "vlength (normalize a) = 1"
proof -
  have "dot (normalize a) (normalize a) = (1 / vlength a) * ((1 / vlength a) * dot a a)"
    by (simp add: normalize_multiplyScalar [OF assms] dot_multiplyScalar_left
        dot_multiplyScalar_right)
  also have "\<dots> = 1"
    using assms by (simp add: vlength_square [symmetric])
  finally show ?thesis by (simp add: vlength_def)
qed

lemma normalize_of_unit: "vlength a = 1 \<Longrightarrow> normalize a = a"
  by (cases a) (simp add: normalize_def Let_def)

lemma dot_cross_left: "dot (crossVectors a b) a = 0"
  by (simp add: dot_def crossVectors_def algebra_simps)

lemma dot_cross_right: "dot (crossVectors a b) b = 0"
  by (simp add: dot_def crossVectors_def algebra_simps)

lemma dot_commute: "dot a b = dot b a"
  by (simp add: dot_def algebra_simps)

lemma cross_norm: "dot (crossVectors a b) (crossVectors a b) = dot a a * dot b b - dot a b * dot a b"
  by (simp add: dot_def crossVectors_def algebra_simps)

lemma triple_cross:
  assumes ab: "dot a b = 0" and aa: "dot a a = 1"
  shows "crossVectors (crossVectors a b) a = b"
proof -
  obtain a1 a2 a3 where a: "a = Vector3 a1 a2 a3" by (cases a)
  obtain b1 b2 b3 where b: "b = Vector3 b1 b2 b3" by (cases b)
  from ab have ab': "a1 * b1 + a2 * b2 + a3 * b3 = 0" by (simp add: a b dot_def)
  from aa have aa': "a1 * a1 + a2 * a2 + a3 * a3 = 1" by (simp add: a dot_def)
  have e1: "(a3 * b1 - a1 * b3) * a3 - (a1 * b2 - a2 * b1) * a2
        = b1 * (a1 * a1 + a2 * a2 + a3 * a3) - a1 * (a1 * b1 + a2 * b2 + a3 * b3)"
    by (simp add: algebra_simps)
  have e2: "(a1 * b2 - a2 * b1) * a1 - (a2 * b3 - a3 * b2) * a3
        = b2 * (a1 * a1 + a2 * a2 + a3 * a3) - a2 * (a1 * b1 + a2 * b2 + a3 * b3)"
    by (simp add: algebra_simps)
  have e3: "(a2 * b3 - a3 * b2) * a2 - (a3 * b1 - a1 * b3) * a1
        = b3 * (a1 * a1 + a2 * a2 + a3 * a3) - a3 * (a1 * b1 + a2 * b2 + a3 * b3)"
    by (simp add: algebra_simps)
  have r: "x * (a1 * a1 + a2 * a2 + a3 * a3) - y * (a1 * b1 + a2 * b2 + a3 * b3) = x" for x y
    unfolding aa' ab' by simp
  show ?thesis
    unfolding a b crossVectors_def Vector3.sel e1 e2 e3 r ..
qed

lemma unit_dot: "vlength a = 1 \<Longrightarrow> dot a a = 1"
  using vlength_square [of a] by simp

lemma basis_of_candidates:
  assumes up0: "up0 \<noteq> zeroVector" and right0: "right0 \<noteq> zeroVector"
    and np: "crossVectors right0 up0 \<noteq> zeroVector"
  defines "handUp \<equiv> normalize up0"
  defines "handForward \<equiv> normalize (crossVectors (normalize right0) handUp)"
  defines "handRight \<equiv> normalize (crossVectors handUp handForward)"
  shows "dot handRight handUp = 0 \<and> dot handRight handForward = 0 \<and> dot handUp handForward = 0
     \<and> vlength handRight = 1 \<and> vlength handUp = 1 \<and> vlength handForward = 1
     \<and> crossVectors handRight handUp = handForward"
proof -
  let ?c = "crossVectors (normalize right0) handUp"
  have lu: "vlength up0 \<noteq> 0" and lr: "vlength right0 \<noteq> 0"
    using up0 right0 by (simp_all add: vlength_zero_iff)
  have u1: "vlength handUp = 1"
    unfolding handUp_def by (rule normalize_unit [OF lu])
  have c_eq: "?c = multiplyScalar (1 / vlength up0)
                     (multiplyScalar (1 / vlength right0) (crossVectors right0 up0))"
    by (simp add: handUp_def normalize_multiplyScalar [OF lu] normalize_multiplyScalar [OF lr]
        cross_multiplyScalar_left cross_multiplyScalar_right)
  have c_nz: "?c \<noteq> zeroVector"
    using lu lr np by (simp add: c_eq multiplyScalar_zero_iff)
  then have lc: "vlength ?c \<noteq> 0" by (simp add: vlength_zero_iff)
  have f1: "vlength handForward = 1"
    unfolding handForward_def by (rule normalize_unit [OF lc])
  have fu: "dot handForward handUp = 0"
    by (simp add: handForward_def normalize_multiplyScalar [OF lc] dot_multiplyScalar_left
        dot_cross_right)
  then have uf: "dot handUp handForward = 0" by (simp add: dot_commute)
  have "dot (crossVectors handUp handForward) (crossVectors handUp handForward) = 1"
    by (simp add: cross_norm uf unit_dot [OF u1] unit_dot [OF f1])
  then have d1: "vlength (crossVectors handUp handForward) = 1"
    by (simp add: vlength_def)
  have r_eq: "handRight = crossVectors handUp handForward"
    unfolding handRight_def by (rule normalize_of_unit [OF d1])
  have r1: "vlength handRight = 1" by (simp add: r_eq d1)
  have ru: "dot handRight handUp = 0" by (simp add: r_eq dot_cross_left)
  have rf: "dot handRight handForward = 0" by (simp add: r_eq dot_cross_right)
  have rh: "crossVectors handRight handUp = handForward"
    unfolding r_eq by (rule triple_cross [OF uf unit_dot [OF u1]])
  from ru rf uf r1 u1 f1 rh show ?thesis by (simp only: simp_thms)
qed

text \<open>
  Claim C2. When the four landmarks 0, 5, 9, 17 are there, the up candidate (wrist to
  middle MCP) and the right candidate (pinky MCP to index MCP) are nonzero and they are
  not parallel (their cross product is nonzero), the basis (right, up, forward) that
  \<^verbatim>\<open>calculateHandRotation\<close> builds, with right recomputed as normalize(cross(up,
  forward)), is orthonormal: the three pairwise dot products are 0 and the three
  lengths are 1. It is right-handed: cross(right, up) = forward.
\<close>

theorem hand_basis_orthonormal:
  assumes "17 < length lms"
    and "upCandidate lms \<noteq> zeroVector"
    and "rightCandidate lms \<noteq> zeroVector"
    and "crossVectors (rightCandidate lms) (upCandidate lms) \<noteq> zeroVector"
  shows "\<exists>handRight handUp handForward.
     handBasis lms = Inr (handRight, handUp, handForward)
     \<and> (threeDefined lib \<longrightarrow> calculateHandRotation lib lms
            = Inr (Some (quaternionOfBasis lib handRight handUp handForward)))
     \<and> dot handRight handUp = 0 \<and> dot handRight handForward = 0 \<and> dot handUp handForward = 0
     \<and> vlength handRight = 1 \<and> vlength handUp = 1 \<and> vlength handForward = 1
     \<and> crossVectors handRight handUp = handForward"
proof -
  let ?up = "normalize (upCandidate lms)"
  let ?fwd = "normalize (crossVectors (normalize (rightCandidate lms)) ?up)"
  let ?right = "normalize (crossVectors ?up ?fwd)"
  from assms(1) have l: "lms \<noteq> []" "5 < length lms" "9 < length lms"
    by auto
  have b: "handBasis lms = Inr (?right, ?up, ?fwd)"
    using assms(1) l
    by (simp add: handBasis_def landmarkAt_def Let_def upCandidate_def rightCandidate_def)
  have q: "threeDefined lib \<longrightarrow> calculateHandRotation lib lms
            = Inr (Some (quaternionOfBasis lib ?right ?up ?fwd))"
    by (simp add: calculateHandRotation_def b)
  from basis_of_candidates [OF assms(2,3,4)] b q show ?thesis by blast
qed

lemma uprightHand_candidates:
  "17 < length uprightHand"
  "upCandidate uprightHand = Vector3 0 (2 / 10) 0"
  "rightCandidate uprightHand = Vector3 (2 / 10) 0 0"
  by (simp_all add: uprightHand_def flatHand_def upCandidate_def rightCandidate_def
      toVector3_def subVectors_def orZero_def)

theorem hand_basis_orthonormal_witness:
  "17 < length uprightHand
   \<and> upCandidate uprightHand \<noteq> zeroVector
   \<and> rightCandidate uprightHand \<noteq> zeroVector
   \<and> crossVectors (rightCandidate uprightHand) (upCandidate uprightHand) \<noteq> zeroVector
   \<and> (\<exists>handRight handUp handForward.
        handBasis uprightHand = Inr (handRight, handUp, handForward)
        \<and> calculateHandRotation sampleLibrary uprightHand
            = Inr (Some (quaternionOfBasis sampleLibrary handRight handUp handForward))
        \<and> dot handRight handUp = 0 \<and> dot handRight handForward = 0
        \<and> dot handUp handForward = 0
        \<and> vlength handRight = 1 \<and> vlength handUp = 1 \<and> vlength handForward = 1
        \<and> crossVectors handRight handUp = handForward)"
proof -
  have h2: "upCandidate uprightHand \<noteq> zeroVector"
    and h3: "rightCandidate uprightHand \<noteq> zeroVector"
    and h4: "crossVectors (rightCandidate uprightHand) (upCandidate uprightHand) \<noteq> zeroVector"
    by (simp_all add: uprightHand_candidates zeroVector_def crossVectors_def)
  have t: "threeDefined sampleLibrary" by (simp add: sampleLibrary_def)
  from hand_basis_orthonormal [OF uprightHand_candidates(1) h2 h3 h4, of sampleLibrary] t
    uprightHand_candidates(1) h2 h3 h4
  show ?thesis by blast
qed

end
